theory Spec2Isabelle
  imports Complex_Main
begin

unbundle bit_operations_syntax

section \<open>The world outside the two source files\<close>

text \<open>
  \<^verbatim>\<open>http_file.py\<close> and \<^verbatim>\<open>tempofs.py\<close> talk to an HTTP server through
  \<^verbatim>\<open>requests.Session\<close>, read three response headers, log through \<^verbatim>\<open>logging\<close>
  and answer a directory listing through \<^verbatim>\<open>pyfuse3.readdir_reply\<close>. None of that
  is code of the repository. The server and the library functions are parameters of the
  model (the record \<open>env\<close>); what a call sends, logs and emits is returned as a list
  of events, in the order the code produces them.
\<close>

type_synonym bytes = string

text \<open>
  The only two requests the program makes: \<^verbatim>\<open>session.head(url)\<close>, and
  \<^verbatim>\<open>session.get(url, headers={"Range": "bytes=<a>-<b>"})\<close>, written \<open>GET url a b\<close>.
\<close>

datatype request = HEAD string | GET string int int

record response =
  status_code :: nat
  headers :: "(string \<times> string) list"
  content :: bytes

datatype errno = ENOENT | EACCES

datatype error =
    FUSEError errno
  | IndexError
  | KeyError
  | ValueError
  | OSError
  | AssertionError
  | UnicodeEncodeError
  | HTTPError nat
  | ConnectionError

record EntryAttributes =
  st_ino :: int
  st_mode :: nat
  st_size :: int
  st_uid :: nat
  st_gid :: nat
  st_ctime_ns :: real
  st_atime_ns :: real
  st_mtime_ns :: real

datatype message =
    Unknown_Accept_Ranges string
  | Not_seekable string
  | Nonseekable string
  | Only_read_supported int
  | Read_call int int int

datatype event =
    Sent request
  | Warning message
  | Debug message
  | Readdir_reply bytes EntryAttributes int

text \<open>
  \<open>http\<close> is the session: the reply to a request, or the exception the transport
  raises instead. \<open>to_int\<close> is Python's \<^verbatim>\<open>int()\<close> on a header value,
  \<open>to_ns\<close> is \<^verbatim>\<open>parsedate_to_datetime(v).timestamp() * 1e9\<close>; both may raise.
  \<open>getuid\<close> and \<open>getgid\<close> are the identity of the process.
\<close>

record env =
  http :: "request \<Rightarrow> error + response"
  to_int :: "string \<Rightarrow> error + int"
  to_ns :: "string \<Rightarrow> error + real"
  getuid :: nat
  getgid :: nat

text \<open>\<^verbatim>\<open>Response.raise_for_status\<close>: HTTPError for a 4xx or 5xx status.\<close>

definition raise_for_status :: "response \<Rightarrow> error + unit" where
  "raise_for_status r =
     (if 400 \<le> status_code r \<and> status_code r < 600 then Inl (HTTPError (status_code r))
      else Inr ())"

text \<open>\<^verbatim>\<open>int(r.headers.get("Content-Length", 0))\<close>\<close>

definition content_length :: "env \<Rightarrow> response \<Rightarrow> error + int" where
  "content_length E r =
     (case map_of (headers r) ''Content-Length'' of
        None \<Rightarrow> Inr 0
      | Some v \<Rightarrow> to_int E v)"

definition unsupported_values :: "string list" where
  "unsupported_values = [''none'', ''false'', ''False'', ''0'', ''no'', ''No'']"

section \<open>http\_file.py: HTTPRangeFile\<close>

text \<open>
  The object's fields. \<open>is_seekable_cache\<close> is the slot of the
  \<^verbatim>\<open>cached_property\<close>: empty until \<^verbatim>\<open>is_seekable\<close> is first read.
\<close>

record HTTPRangeFile =
  url :: string
  head :: response
  fsize :: int
  pos :: int
  is_seekable_cache :: "bool option"

definition HTTPRangeFile_init :: "env \<Rightarrow> string \<Rightarrow> (error + HTTPRangeFile) \<times> event list" where
  "HTTPRangeFile_init E u =
     (case http E (HEAD u) of
        Inl e \<Rightarrow> (Inl e, [Sent (HEAD u)])
      | Inr r \<Rightarrow>
          (case raise_for_status r of
             Inl e \<Rightarrow> (Inl e, [Sent (HEAD u)])
           | Inr _ \<Rightarrow>
               (case content_length E r of
                  Inl e \<Rightarrow> (Inl e, [Sent (HEAD u)])
                | Inr n \<Rightarrow>
                    (Inr \<lparr>url = u, head = r, fsize = n, pos = 0, is_seekable_cache = None\<rparr>,
                     [Sent (HEAD u)]))))"

definition HTTPRangeFile_is_seekable ::
  "HTTPRangeFile \<Rightarrow> bool \<times> HTTPRangeFile \<times> event list" where
  "HTTPRangeFile_is_seekable s =
     (case is_seekable_cache s of
        Some b \<Rightarrow> (b, s, [])
      | None \<Rightarrow>
          (let seekable = (map_of (headers (head s)) ''Accept-Ranges'' = Some ''bytes'');
               accept_ranges =
                 (case map_of (headers (head s)) ''Accept-Ranges'' of
                    None \<Rightarrow> ''none'' | Some v \<Rightarrow> v);
               logged =
                 (if \<not> seekable then
                    (if accept_ranges \<notin> set unsupported_values
                     then [Warning (Unknown_Accept_Ranges accept_ranges)] else [])
                    @ [Warning (Not_seekable (url s))]
                  else [])
           in (seekable, s\<lparr>is_seekable_cache := Some seekable\<rparr>, logged)))"

definition HTTPRangeFile_seekable ::
  "HTTPRangeFile \<Rightarrow> bool \<times> HTTPRangeFile \<times> event list" where
  "HTTPRangeFile_seekable s = HTTPRangeFile_is_seekable s"

text \<open>
  \<^verbatim>\<open>readinto(b)\<close> with \<open>b\<close> a bytearray, as \<^verbatim>\<open>read\<close> passes it. The slice
  assignment \<^verbatim>\<open>b[:n] = data\<close> with \<open>n = len(data)\<close> replaces the first \<open>n\<close> bytes
  of \<open>b\<close> (all of \<open>b\<close> when it is shorter) by \<open>data\<close>; the buffer after the call is
  returned beside the count.
\<close>

definition HTTPRangeFile_readinto ::
  "env \<Rightarrow> HTTPRangeFile \<Rightarrow> bytes \<Rightarrow> (error + nat \<times> bytes) \<times> HTTPRangeFile \<times> event list" where
  "HTTPRangeFile_readinto E s b =
     (if pos s \<ge> fsize s then (Inr (0, b), s, [])
      else
        (let end = min (pos s + int (length b) - 1) (fsize s - 1);
             req = GET (url s) (pos s) end
         in case http E req of
              Inl e \<Rightarrow> (Inl e, s, [Sent req])
            | Inr resp \<Rightarrow>
                (case raise_for_status resp of
                   Inl e \<Rightarrow> (Inl e, s, [Sent req])
                 | Inr _ \<Rightarrow>
                     (let data = content resp; n = length data
                      in (Inr (n, data @ drop n b), s\<lparr>pos := pos s + int n\<rparr>, [Sent req])))))"

definition HTTPRangeFile_read ::
  "env \<Rightarrow> HTTPRangeFile \<Rightarrow> int \<Rightarrow> (error + bytes) \<times> HTTPRangeFile \<times> event list" where
  "HTTPRangeFile_read E s n =
     (if n < 0 then
        (if pos s \<ge> fsize s then (Inr [], s, [])
         else
           (let end = fsize s - 1;
                req = GET (url s) (pos s) end
            in case http E req of
                 Inl e \<Rightarrow> (Inl e, s, [Sent req])
               | Inr resp \<Rightarrow>
                   (case raise_for_status resp of
                      Inl e \<Rightarrow> (Inl e, s, [Sent req])
                    | Inr _ \<Rightarrow>
                        (let data = content resp
                         in (Inr data, s\<lparr>pos := pos s + int (length data)\<rparr>, [Sent req])))))
      else if n = 0 then (Inr [], s, [])
      else
        (let buffer = replicate (nat n) (CHR 0x00)
         in case HTTPRangeFile_readinto E s buffer of
              (Inl e, s', tr) \<Rightarrow> (Inl e, s', tr)
            | (Inr (k, buffer'), s', tr) \<Rightarrow>
                (Inr (if int k < n then take k buffer' else buffer'), s', tr)))"

text \<open>\<^verbatim>\<open>io.SEEK_SET\<close>, \<^verbatim>\<open>io.SEEK_CUR\<close>, \<^verbatim>\<open>io.SEEK_END\<close>\<close>

definition SEEK_SET :: int where "SEEK_SET = 0"
definition SEEK_CUR :: int where "SEEK_CUR = 1"
definition SEEK_END :: int where "SEEK_END = 2"

definition HTTPRangeFile_seek ::
  "HTTPRangeFile \<Rightarrow> int \<Rightarrow> int \<Rightarrow> (error + int) \<times> HTTPRangeFile" where
  "HTTPRangeFile_seek s offset whence =
     (case (if whence = SEEK_SET then Inr offset
            else if whence = SEEK_CUR then Inr (pos s + offset)
            else if whence = SEEK_END then Inr (fsize s + offset)
            else Inl ValueError) of
        Inl e \<Rightarrow> (Inl e, s)
      | Inr newpos \<Rightarrow>
          (if newpos < 0 then (Inl OSError, s)
           else (Inr newpos, s\<lparr>pos := newpos\<rparr>)))"

definition HTTPRangeFile_tell :: "HTTPRangeFile \<Rightarrow> int" where
  "HTTPRangeFile_tell s = pos s"

section \<open>tempofs.py: webfile\<close>

record webfile =
  inode :: int
  name :: string
  wurl :: string

text \<open>\<^verbatim>\<open>stat.S_IFREG | 0o444\<close>, \<^verbatim>\<open>stat.S_IFDIR | 0o755\<close> and \<^verbatim>\<open>pyfuse3.ROOT_INODE\<close>\<close>

definition S_IFREG :: nat where "S_IFREG = 32768"
definition S_IFDIR :: nat where "S_IFDIR = 16384"
definition file_mode :: nat where "file_mode = S_IFREG + 292"
definition dir_mode :: nat where "dir_mode = S_IFDIR + 493"
definition ROOT_INODE :: int where "ROOT_INODE = 1"

text \<open>
  \<^verbatim>\<open>pyfuse3.EntryAttributes()\<close>, on the fields the program sets: a fresh entry is a
  regular file of mode bits 0 with every other field 0.
\<close>

definition EntryAttributes_new :: EntryAttributes where
  "EntryAttributes_new =
     \<lparr>st_ino = 0, st_mode = S_IFREG, st_size = 0, st_uid = 0, st_gid = 0,
      st_ctime_ns = 0, st_atime_ns = 0, st_mtime_ns = 0\<rparr>"

text \<open>
  The \<^verbatim>\<open>try\<close> of \<^verbatim>\<open>webfile.getattr\<close>: a missing header is the KeyError that the
  \<^verbatim>\<open>except\<close> turns into 0, and so is a KeyError out of the date parser.
\<close>

definition last_modified :: "env \<Rightarrow> response \<Rightarrow> error + real" where
  "last_modified E r =
     (case map_of (headers r) ''Last-Modified'' of
        None \<Rightarrow> Inr 0
      | Some v \<Rightarrow>
          (case to_ns E v of
             Inl e \<Rightarrow> (if e = KeyError then Inr 0 else Inl e)
           | Inr t \<Rightarrow> Inr t))"

definition webfile_getattr :: "env \<Rightarrow> webfile \<Rightarrow> (error + EntryAttributes) \<times> event list" where
  "webfile_getattr E f =
     (case http E (HEAD (wurl f)) of
        Inl e \<Rightarrow> (Inl e, [Sent (HEAD (wurl f))])
      | Inr r \<Rightarrow>
          (case last_modified E r of
             Inl e \<Rightarrow> (Inl e, [Sent (HEAD (wurl f))])
           | Inr t \<Rightarrow>
               (case content_length E r of
                  Inl e \<Rightarrow> (Inl e, [Sent (HEAD (wurl f))])
                | Inr n \<Rightarrow>
                    (Inr (EntryAttributes_new
                            \<lparr>st_ino := inode f, st_mode := file_mode, st_ctime_ns := t,
                             st_atime_ns := t, st_mtime_ns := t, st_size := n\<rparr>),
                     [Sent (HEAD (wurl f))]))))"

record FileInfo =
  fh :: int
  keep_cache :: bool
  nonseekable :: bool

text \<open>
  \<^verbatim>\<open>r.headers.get("Accept-Ranges", True)\<close>: with the header absent the value tested
  and logged is the Python object \<^verbatim>\<open>True\<close>, which is not in the list of strings
  and prints as \<open>True\<close>.
\<close>

definition webfile_getfileinfo :: "env \<Rightarrow> webfile \<Rightarrow> (error + FileInfo) \<times> event list" where
  "webfile_getfileinfo E f =
     (case http E (HEAD (wurl f)) of
        Inl e \<Rightarrow> (Inl e, [Sent (HEAD (wurl f))])
      | Inr r \<Rightarrow>
          (let h = map_of (headers r) ''Accept-Ranges''
           in if h = Some ''bytes'' then
                (Inr \<lparr>fh = inode f, keep_cache = True, nonseekable = False\<rparr>,
                 [Sent (HEAD (wurl f))])
              else
                (Inr \<lparr>fh = inode f, keep_cache = True, nonseekable = True\<rparr>,
                 [Sent (HEAD (wurl f))]
                 @ (case h of
                      None \<Rightarrow> [Warning (Unknown_Accept_Ranges ''True'')]
                    | Some v \<Rightarrow>
                        (if v \<notin> set unsupported_values
                         then [Warning (Unknown_Accept_Ranges v)] else []))
                 @ [Warning (Nonseekable (name f))])))"

definition webfile_read :: "env \<Rightarrow> webfile \<Rightarrow> int \<Rightarrow> int \<Rightarrow> (error + bytes) \<times> event list" where
  "webfile_read E f off sz =
     (let req = GET (wurl f) off (off + sz - 1)
      in case http E req of
           Inl e \<Rightarrow> (Inl e, [Sent req])
         | Inr r \<Rightarrow> (Inr (content r), [Sent req]))"

section \<open>tempofs.py: tempofs\<close>

text \<open>
  The constructor's loop over the items of the configuration (a dict: an association
  list in insertion order), appending to \<^verbatim>\<open>self.files\<close>.
\<close>

fun add_files :: "webfile list \<Rightarrow> (string \<times> string) list \<Rightarrow> webfile list" where
  "add_files files [] = files"
| "add_files files ((n, u) # config) =
     add_files
       (files @ [\<lparr>inode = ROOT_INODE + 1 + int (length files), name = n, wurl = u\<rparr>]) config"

definition tempofs_init :: "(string \<times> string) list \<Rightarrow> webfile list" where
  "tempofs_init config = add_files [] config"

fun tempofs_find :: "webfile list \<Rightarrow> int \<Rightarrow> error + webfile" where
  "tempofs_find [] i = Inl IndexError"
| "tempofs_find (file # files) i = (if inode file = i then Inr file else tempofs_find files i)"

fun getattr_loop :: "env \<Rightarrow> webfile list \<Rightarrow> int \<Rightarrow> (error + EntryAttributes) \<times> event list" where
  "getattr_loop E [] i = (Inl (FUSEError ENOENT), [])"
| "getattr_loop E (file # files) i =
     (if inode file = i then
        (case webfile_getattr E file of
           (Inl e, tr) \<Rightarrow> (Inl e, tr)
         | (Inr entry, tr) \<Rightarrow>
             (Inr (entry\<lparr>st_gid := getgid E, st_uid := getuid E, st_ino := i\<rparr>), tr))
      else getattr_loop E files i)"

definition tempofs_getattr ::
  "env \<Rightarrow> webfile list \<Rightarrow> int \<Rightarrow> (error + EntryAttributes) \<times> event list" where
  "tempofs_getattr E files i =
     (if i = ROOT_INODE then
        (Inr (EntryAttributes_new
                \<lparr>st_mode := dir_mode, st_size := 0, st_gid := getgid E, st_uid := getuid E,
                 st_ino := i\<rparr>), [])
      else getattr_loop E files i)"

text \<open>
  \<^verbatim>\<open>lookup\<close> returns \<^verbatim>\<open>file.getattr()\<close> without awaiting it: the value is the
  coroutine of that call, and no request has been sent when \<^verbatim>\<open>lookup\<close> returns.
\<close>

datatype coroutine = Getattr_of webfile

fun lookup_loop :: "webfile list \<Rightarrow> string \<Rightarrow> error + coroutine" where
  "lookup_loop [] n = Inl (FUSEError ENOENT)"
| "lookup_loop (file # files) n =
     (if name file = n then Inr (Getattr_of file) else lookup_loop files n)"

definition tempofs_lookup ::
  "env \<Rightarrow> webfile list \<Rightarrow> int \<Rightarrow> string \<Rightarrow> (error + coroutine) \<times> event list" where
  "tempofs_lookup E files parent_inode n =
     (if parent_inode \<noteq> ROOT_INODE then (Inl (FUSEError ENOENT), [])
      else (lookup_loop files n, []))"

definition tempofs_opendir :: "int \<Rightarrow> error + int" where
  "tempofs_opendir i = (if i \<noteq> ROOT_INODE then Inl (FUSEError ENOENT) else Inr i)"

text \<open>\<^verbatim>\<open>self.files[start_id]\<close>: a negative index counts from the end.\<close>

definition files_at :: "webfile list \<Rightarrow> int \<Rightarrow> error + webfile" where
  "files_at files i =
     (if 0 \<le> i \<and> i < int (length files) then Inr (files ! nat i)
      else if i < 0 \<and> - int (length files) \<le> i then Inr (files ! nat (int (length files) + i))
      else Inl IndexError)"

text \<open>\<^verbatim>\<open>bytes(file.name, encoding="ascii")\<close>\<close>

definition encode_ascii :: "string \<Rightarrow> error + bytes" where
  "encode_ascii n =
     (if list_all (\<lambda>c. (of_char c :: nat) < 128) n then Inr n else Inl UnicodeEncodeError)"

text \<open>
  The body of \<^verbatim>\<open>readdir\<close> runs inside \<^verbatim>\<open>try ... except IndexError\<close>, so an
  IndexError from any of its steps becomes ENOENT. The arguments of
  \<^verbatim>\<open>readdir_reply\<close> are evaluated left to right: the name is encoded before the
  attributes are fetched.
\<close>

definition tempofs_readdir ::
  "env \<Rightarrow> webfile list \<Rightarrow> int \<Rightarrow> int \<Rightarrow> (error + unit) \<times> event list" where
  "tempofs_readdir E files h start_id =
     (if h \<noteq> ROOT_INODE then (Inl AssertionError, [])
      else
        (case files_at files start_id of
           Inl e \<Rightarrow> (Inl (if e = IndexError then FUSEError ENOENT else e), [])
         | Inr file \<Rightarrow>
             (case encode_ascii (name file) of
                Inl e \<Rightarrow> (Inl (if e = IndexError then FUSEError ENOENT else e), [])
              | Inr nm \<Rightarrow>
                  (case webfile_getattr E file of
                     (Inl e, tr) \<Rightarrow> (Inl (if e = IndexError then FUSEError ENOENT else e), tr)
                   | (Inr entry, tr) \<Rightarrow>
                       (Inr (), tr @ [Readdir_reply nm entry (start_id + 1)])))))"

text \<open>\<^verbatim>\<open>os.O_WRONLY\<close>, \<^verbatim>\<open>os.O_RDWR\<close>, \<^verbatim>\<open>os.O_TRUNC\<close>, \<^verbatim>\<open>os.O_APPEND\<close> on Linux\<close>

definition O_WRONLY :: int where "O_WRONLY = 1"
definition O_RDWR :: int where "O_RDWR = 2"
definition O_TRUNC :: int where "O_TRUNC = 512"
definition O_APPEND :: int where "O_APPEND = 1024"

definition tempofs_open ::
  "env \<Rightarrow> webfile list \<Rightarrow> int \<Rightarrow> int \<Rightarrow> (error + FileInfo) \<times> event list" where
  "tempofs_open E files i flags =
     (if flags AND O_APPEND \<noteq> 0 \<or> flags AND O_TRUNC \<noteq> 0 \<or> flags AND O_RDWR \<noteq> 0
         \<or> flags AND O_WRONLY \<noteq> 0
      then (Inl (FUSEError EACCES), [Warning (Only_read_supported flags)])
      else
        (case tempofs_find files i of
           Inl e \<Rightarrow> (Inl (if e = IndexError then FUSEError ENOENT else e), [])
         | Inr file \<Rightarrow>
             (case webfile_getfileinfo E file of
                (Inl e, tr) \<Rightarrow> (Inl (if e = IndexError then FUSEError ENOENT else e), tr)
              | (Inr info, tr) \<Rightarrow> (Inr info, tr))))"

definition tempofs_read ::
  "env \<Rightarrow> webfile list \<Rightarrow> int \<Rightarrow> int \<Rightarrow> int \<Rightarrow> (error + bytes) \<times> event list" where
  "tempofs_read E files h off sz =
     (case tempofs_find files h of
        Inl e \<Rightarrow> (Inl e, [Debug (Read_call h off sz)])
      | Inr file \<Rightarrow>
          (case webfile_read E file off sz of
             (r, tr) \<Rightarrow> (r, Debug (Read_call h off sz) # tr)))"

section \<open>Callers of the two classes\<close>

text \<open>
  The entries one call of \<^verbatim>\<open>readdir\<close> handed to \<^verbatim>\<open>readdir_reply\<close>, and the
  listing protocol of the caller: call \<^verbatim>\<open>readdir\<close> at an index, take the names
  emitted, resume at the index emitted with the entry, stop at the first failure (or at
  a call that emits nothing). The result is the names, the index of the last call and
  the error that call raised.
\<close>

fun replies :: "event list \<Rightarrow> (bytes \<times> EntryAttributes \<times> int) list" where
  "replies [] = []"
| "replies (Readdir_reply n a i # tr) = (n, a, i) # replies tr"
| "replies (_ # tr) = replies tr"

lemma readdir_returns:
  "tempofs_readdir E files ROOT_INODE i = (Inr u, tr) \<Longrightarrow>
     i < int (length files) \<and>
     (\<exists>f a. files_at files i = Inr f \<and> encode_ascii (name f) = Inr (name f) \<and>
        webfile_getattr E f = (Inr a, [Sent (HEAD (wurl f))]) \<and>
        tr = [Sent (HEAD (wurl f)), Readdir_reply (name f) a (i + 1)])"
  by (auto simp: tempofs_readdir_def files_at_def Let_def encode_ascii_def webfile_getattr_def
      split: if_splits sum.splits prod.splits)

function listdir :: "env \<Rightarrow> webfile list \<Rightarrow> int \<Rightarrow> bytes list \<times> int \<times> error option" where
  "listdir E files i =
     (case tempofs_readdir E files ROOT_INODE i of
        (Inl e, tr) \<Rightarrow> ([], i, Some e)
      | (Inr u, tr) \<Rightarrow>
          (case replies tr of
             [(n, a, next)] \<Rightarrow> (case listdir E files next of (ns, r) \<Rightarrow> (n # ns, r))
           | _ \<Rightarrow> ([], i, None)))"
  by pat_completeness auto
termination
  apply (relation "measure (\<lambda>(E, files, i). nat (int (length files) - i))")
   apply simp
  apply (auto dest!: readdir_returns [OF sym])
  done

text \<open>
  A caller of a stream makes calls one after another, each against the server as it is
  at that moment. \<open>after s (E, c)\<close> is the object after call \<open>c\<close>, whether the call
  returned or raised.
\<close>

datatype call = Read int | Readinto bytes | Seek int int | Tell | Seekable

fun after :: "HTTPRangeFile \<Rightarrow> env \<times> call \<Rightarrow> HTTPRangeFile" where
  "after s (E, Read n) = fst (snd (HTTPRangeFile_read E s n))"
| "after s (E, Readinto b) = fst (snd (HTTPRangeFile_readinto E s b))"
| "after s (E, Seek offset whence) = snd (HTTPRangeFile_seek s offset whence)"
| "after s (E, Tell) = s"
| "after s (E, Seekable) = fst (snd (HTTPRangeFile_seekable s))"

fun run :: "HTTPRangeFile \<Rightarrow> (env \<times> call) list \<Rightarrow> HTTPRangeFile" where
  "run s [] = s"
| "run s (c # cs) = run (after s c) cs"

text \<open>
  An assumption on the server, for one call: the reply to each ranged request the call
  sent carries no more bytes than the range \<open>a..b\<close> it asked for.
\<close>

fun reply_fits :: "env \<Rightarrow> event \<Rightarrow> bool" where
  "reply_fits E (Sent (GET u a b)) =
     (case http E (GET u a b) of
        Inl e \<Rightarrow> True
      | Inr r \<Rightarrow> int (length (content r)) \<le> b - a + 1)"
| "reply_fits E ev = True"

section \<open>Concrete servers and registries\<close>

text \<open>
  A ten-byte resource behind a server that honours byte ranges (206 with the bytes of
  the range, cut at the end of the resource; 416 when the range starts past the end).
\<close>

definition doc_url :: string where
  "doc_url = ''http://h/doc''"

definition doc_head :: response where
  "doc_head =
     \<lparr>status_code = 200,
      headers = [(''Content-Length'', ''10''), (''Accept-Ranges'', ''bytes'')],
      content = []\<rparr>"

fun range_server :: "request \<Rightarrow> error + response" where
  "range_server (HEAD u) = Inr doc_head"
| "range_server (GET u a b) =
     (if 0 \<le> a \<and> a < 10 \<and> a \<le> b
      then Inr \<lparr>status_code = 206, headers = [],
                content = take (nat (min b 9 - a + 1)) (drop (nat a) ''0123456789'')\<rparr>
      else Inr \<lparr>status_code = 416, headers = [], content = ''Range Not Satisfiable''\<rparr>)"

definition ten :: "string \<Rightarrow> error + int" where
  "ten v = (if v = ''10'' then Inr 10 else Inl ValueError)"

definition no_date :: "string \<Rightarrow> error + real" where
  "no_date v = Inl ValueError"

definition doc_env :: env where
  "doc_env = \<lparr>http = range_server, to_int = ten, to_ns = no_date, getuid = 1000, getgid = 1000\<rparr>"

definition doc_stream :: "int \<Rightarrow> HTTPRangeFile" where
  "doc_stream p = \<lparr>url = doc_url, head = doc_head, fsize = 10, pos = p, is_seekable_cache = None\<rparr>"

definition doc_files :: "webfile list" where
  "doc_files = tempofs_init [(''doc'', doc_url), (''b'', ''http://h/b'')]"

text \<open>
  The same resource behind a server without range support: it says
  \<^verbatim>\<open>Accept-Ranges: none\<close> and answers every GET with the whole body.
\<close>

definition plain_head :: response where
  "plain_head =
     \<lparr>status_code = 200,
      headers = [(''Content-Length'', ''10''), (''Accept-Ranges'', ''none'')],
      content = []\<rparr>"

fun plain_server :: "request \<Rightarrow> error + response" where
  "plain_server (HEAD u) = Inr plain_head"
| "plain_server (GET u a b) =
     Inr \<lparr>status_code = 200, headers = [], content = ''0123456789''\<rparr>"

definition plain_env :: env where
  "plain_env = \<lparr>http = plain_server, to_int = ten, to_ns = no_date, getuid = 1000, getgid = 1000\<rparr>"

definition plain_stream :: "int \<Rightarrow> HTTPRangeFile" where
  "plain_stream p =
     \<lparr>url = doc_url, head = plain_head, fsize = 10, pos = p, is_seekable_cache = None\<rparr>"

text \<open>A server on which the resource does not exist: every request is answered 404.\<close>

definition missing_server :: "request \<Rightarrow> error + response" where
  "missing_server q = Inr \<lparr>status_code = 404, headers = [], content = ''Not Found''\<rparr>"

definition missing_env :: env where
  "missing_env =
     \<lparr>http = missing_server, to_int = ten, to_ns = no_date, getuid = 1000, getgid = 1000\<rparr>"



section \<open>The stream: seek and tell\<close>

text \<open>
  C7. For a stream at position \<open>p\<close> with size \<open>s\<close>, \<open>seek(offset, whence)\<close> computes
  the new position \<open>offset\<close> (start), \<open>p + offset\<close> (current) or \<open>s + offset\<close>
  (end). An unrecognised \<open>whence\<close> fails (ValueError); a negative new position fails
  (OSError); every non-negative new position, also one past \<open>s\<close>, succeeds, returns
  that position, changes nothing but the position, and \<open>tell()\<close> right after returns
  exactly it.
\<close>

theorem seek_then_tell:
  "let newpos = (if whence = SEEK_SET then offset
                 else if whence = SEEK_CUR then pos s + offset
                 else fsize s + offset);
       r = HTTPRangeFile_seek s offset whence
   in (whence \<notin> {SEEK_SET, SEEK_CUR, SEEK_END} \<longrightarrow> r = (Inl ValueError, s))
    \<and> (whence \<in> {SEEK_SET, SEEK_CUR, SEEK_END} \<and> newpos < 0 \<longrightarrow> r = (Inl OSError, s))
    \<and> (whence \<in> {SEEK_SET, SEEK_CUR, SEEK_END} \<and> 0 \<le> newpos \<longrightarrow>
          r = (Inr newpos, s\<lparr>pos := newpos\<rparr>) \<and> HTTPRangeFile_tell (snd r) = newpos)"
  by (simp add: HTTPRangeFile_seek_def HTTPRangeFile_tell_def Let_def
      SEEK_SET_def SEEK_CUR_def SEEK_END_def)

theorem seek_then_tell_witness:
  "HTTPRangeFile_seek (doc_stream 4) 25 SEEK_SET = (Inr 25, doc_stream 25)
 \<and> HTTPRangeFile_tell (snd (HTTPRangeFile_seek (doc_stream 4) 25 SEEK_SET)) = 25
 \<and> HTTPRangeFile_seek (doc_stream 4) 3 SEEK_CUR = (Inr 7, doc_stream 7)
 \<and> HTTPRangeFile_seek (doc_stream 4) (- 3) SEEK_END = (Inr 7, doc_stream 7)
 \<and> HTTPRangeFile_seek (doc_stream 4) (- 5) SEEK_CUR = (Inl OSError, doc_stream 4)
 \<and> HTTPRangeFile_seek (doc_stream 4) 0 7 = (Inl ValueError, doc_stream 4)"
  using seek_then_tell [of SEEK_SET 25 "doc_stream 4"]
        seek_then_tell [of SEEK_CUR 3 "doc_stream 4"]
        seek_then_tell [of SEEK_END "- 3" "doc_stream 4"]
        seek_then_tell [of SEEK_CUR "- 5" "doc_stream 4"]
        seek_then_tell [of 7 0 "doc_stream 4"]
  by (simp add: Let_def doc_stream_def HTTPRangeFile_tell_def
      SEEK_SET_def SEEK_CUR_def SEEK_END_def)

text \<open>
  C10. A seek that fails, by a negative new position or by an unrecognised \<open>whence\<close>,
  leaves the stream as it was: \<open>tell()\<close> after it returns what it returned before.
\<close>

theorem failed_seek_keeps_position:
  "isl (fst (HTTPRangeFile_seek s offset whence)) \<Longrightarrow>
     snd (HTTPRangeFile_seek s offset whence) = s
   \<and> HTTPRangeFile_tell (snd (HTTPRangeFile_seek s offset whence)) = HTTPRangeFile_tell s"
  by (auto simp: HTTPRangeFile_seek_def split: if_splits)

theorem failed_seek_keeps_position_witness:
  "isl (fst (HTTPRangeFile_seek (doc_stream 4) (- 5) SEEK_CUR))
 \<and> HTTPRangeFile_tell (snd (HTTPRangeFile_seek (doc_stream 4) (- 5) SEEK_CUR)) = 4
 \<and> isl (fst (HTTPRangeFile_seek (doc_stream 4) 2 9))
 \<and> HTTPRangeFile_tell (snd (HTTPRangeFile_seek (doc_stream 4) 2 9)) = 4"
proof -
  have neg: "isl (fst (HTTPRangeFile_seek (doc_stream 4) (- 5) SEEK_CUR))"
    by (simp add: HTTPRangeFile_seek_def doc_stream_def SEEK_SET_def SEEK_CUR_def)
  have bad: "isl (fst (HTTPRangeFile_seek (doc_stream 4) 2 9))"
    by (simp add: HTTPRangeFile_seek_def SEEK_SET_def SEEK_CUR_def SEEK_END_def)
  have before: "HTTPRangeFile_tell (doc_stream 4) = 4"
    by (simp add: HTTPRangeFile_tell_def doc_stream_def)
  show ?thesis
    using neg bad before failed_seek_keeps_position [OF neg] failed_seek_keeps_position [OF bad]
    by simp
qed

section \<open>The stream: read\<close>



section \<open>The bridge: read\<close>

lemma doc_files_eq:
  "doc_files =
     [\<lparr>inode = 2, name = ''doc'', wurl = doc_url\<rparr>,
      \<lparr>inode = 3, name = ''b'', wurl = ''http://h/b''\<rparr>]"
  by (simp add: doc_files_def tempofs_init_def ROOT_INODE_def)

text \<open>
  C8. For a handle that resolves to a resource, \<open>read(handle, offset, size)\<close> sends
  exactly one request, the GET with \<^verbatim>\<open>Range: bytes=offset-(offset+size-1)\<close>, and
  returns the body of the reply as it is: nothing is retried, padded or cut. (When the
  transport raises instead of replying, that exception is what the call raises, after
  the same single request.)
\<close>

theorem bridge_read_one_request:
  "tempofs_find files h = Inr f \<Longrightarrow> req = GET (wurl f) off (off + sz - 1) \<Longrightarrow>
     tempofs_read E files h off sz =
       (case http E req of Inl e \<Rightarrow> Inl e | Inr r \<Rightarrow> Inr (content r),
        [Debug (Read_call h off sz), Sent req])"
  by (simp add: tempofs_read_def webfile_read_def Let_def split: sum.splits)

theorem bridge_read_one_request_witness:
  "tempofs_find doc_files 2 = Inr \<lparr>inode = 2, name = ''doc'', wurl = doc_url\<rparr>
 \<and> tempofs_read doc_env doc_files 2 3 4
     = (Inr ''3456'', [Debug (Read_call 2 3 4), Sent (GET doc_url 3 6)])
 \<and> tempofs_read doc_env doc_files 2 8 4
     = (Inr ''89'', [Debug (Read_call 2 8 4), Sent (GET doc_url 8 11)])"
proof -
  have f: "tempofs_find doc_files 2 = Inr \<lparr>inode = 2, name = ''doc'', wurl = doc_url\<rparr>"
    by (simp add: doc_files_eq)
  show ?thesis
    using f bridge_read_one_request [where E = doc_env and off = 3 and sz = 4, OF f refl]
      bridge_read_one_request [where E = doc_env and off = 8 and sz = 4, OF f refl]
    by (simp add: doc_env_def)
qed

text \<open>
  The stream checks the status of every ranged reply: a 4xx or 5xx status is raised as
  HTTPError, the position stays, and the body of the reply is dropped.
\<close>

lemma stream_read_raises_on_error_status:
  "n \<noteq> 0 \<Longrightarrow> pos s < fsize s \<Longrightarrow>
   req = GET (url s) (pos s)
           (if n < 0 then fsize s - 1 else min (pos s + n - 1) (fsize s - 1)) \<Longrightarrow>
   http E req = Inr r \<Longrightarrow> 400 \<le> status_code r \<Longrightarrow> status_code r < 600 \<Longrightarrow>
     HTTPRangeFile_read E s n = (Inl (HTTPError (status_code r)), s, [Sent req])"
  by (auto simp: HTTPRangeFile_read_def HTTPRangeFile_readinto_def Let_def raise_for_status_def)

lemma stream_readinto_raises_on_error_status:
  "pos s < fsize s \<Longrightarrow>
   req = GET (url s) (pos s) (min (pos s + int (length b) - 1) (fsize s - 1)) \<Longrightarrow>
   http E req = Inr r \<Longrightarrow> 400 \<le> status_code r \<Longrightarrow> status_code r < 600 \<Longrightarrow>
     HTTPRangeFile_readinto E s b = (Inl (HTTPError (status_code r)), s, [Sent req])"
  by (auto simp: HTTPRangeFile_readinto_def Let_def raise_for_status_def)

text \<open>
  C2. A non-success status on the ranged fetch is to fail the read, and the body of a
  failing reply is never to come back as file data. The stream does so (the two lemmas
  above). The bridge does not: \<^verbatim>\<open>webfile.read\<close> returns \<^verbatim>\<open>.content\<close> without
  looking at the status. Against a server that answers 404 with the body
  \<open>Not Found\<close>, \<open>read(2, 0, 4)\<close> returns \<open>Not Found\<close> as the bytes of the file.
\<close>

theorem bridge_read_returns_error_body:
  "tempofs_read missing_env doc_files 2 0 4
     = (Inr ''Not Found'', [Debug (Read_call 2 0 4), Sent (GET doc_url 0 3)])"
  by (simp add: tempofs_read_def webfile_read_def doc_files_eq missing_env_def
      missing_server_def)

section \<open>The bridge: identifiers and names that do not resolve\<close>

lemma find_unknown:
  "i \<notin> inode ` set files \<Longrightarrow> tempofs_find files i = Inl IndexError"
  by (induction files) auto

lemma getattr_unknown:
  "i \<noteq> ROOT_INODE \<Longrightarrow> i \<notin> inode ` set files \<Longrightarrow>
     tempofs_getattr E files i = (Inl (FUSEError ENOENT), [])"
proof -
  have "i \<notin> inode ` set files \<Longrightarrow> getattr_loop E files i = (Inl (FUSEError ENOENT), [])"
    by (induction files) auto
  then show "i \<noteq> ROOT_INODE \<Longrightarrow> i \<notin> inode ` set files \<Longrightarrow> ?thesis"
    by (simp add: tempofs_getattr_def)
qed

lemma lookup_unknown:
  "parent \<noteq> ROOT_INODE \<or> n \<notin> name ` set files \<Longrightarrow>
     tempofs_lookup E files parent n = (Inl (FUSEError ENOENT), [])"
proof -
  have "n \<notin> name ` set files \<Longrightarrow> lookup_loop files n = Inl (FUSEError ENOENT)"
    by (induction files) auto
  then show "parent \<noteq> ROOT_INODE \<or> n \<notin> name ` set files \<Longrightarrow> ?thesis"
    by (auto simp: tempofs_lookup_def)
qed

lemma open_unknown:
  "flags AND O_APPEND = 0 \<Longrightarrow> flags AND O_TRUNC = 0 \<Longrightarrow> flags AND O_RDWR = 0 \<Longrightarrow>
   flags AND O_WRONLY = 0 \<Longrightarrow> i \<notin> inode ` set files \<Longrightarrow>
     tempofs_open E files i flags = (Inl (FUSEError ENOENT), [])"
  by (simp add: tempofs_open_def find_unknown)

lemma read_unknown:
  "i \<notin> inode ` set files \<Longrightarrow>
     tempofs_read E files i off sz = (Inl IndexError, [Debug (Read_call i off sz)])"
  by (simp add: tempofs_read_def find_unknown)


section \<open>The bridge: open\<close>

text \<open>
  C4. For every identifier and every flags value with one of the bits of
  \<^verbatim>\<open>O_APPEND\<close>, \<^verbatim>\<open>O_TRUNC\<close>, \<^verbatim>\<open>O_RDWR\<close> or \<^verbatim>\<open>O_WRONLY\<close> set, \<open>open\<close>
  fails with EACCES after logging one warning; the call resolves nothing and sends no
  request.
\<close>

theorem open_for_writing_denied:
  "flags AND O_APPEND \<noteq> 0 \<or> flags AND O_TRUNC \<noteq> 0 \<or> flags AND O_RDWR \<noteq> 0
      \<or> flags AND O_WRONLY \<noteq> 0 \<Longrightarrow>
     tempofs_open E files i flags
       = (Inl (FUSEError EACCES), [Warning (Only_read_supported flags)])
   \<and> (\<forall>q. Sent q \<notin> set (snd (tempofs_open E files i flags)))"
  by (auto simp: tempofs_open_def)

theorem open_for_writing_denied_witness:
  "(1025 :: int) AND O_APPEND \<noteq> 0
 \<and> tempofs_open doc_env doc_files 2 1025
     = (Inl (FUSEError EACCES), [Warning (Only_read_supported 1025)])
 \<and> (2 :: int) AND O_RDWR \<noteq> 0
 \<and> tempofs_open doc_env doc_files 2 2
     = (Inl (FUSEError EACCES), [Warning (Only_read_supported 2)])
 \<and> (\<forall>q. Sent q \<notin> set (snd (tempofs_open doc_env doc_files 2 2)))"
proof -
  have a: "(1025 :: int) AND O_APPEND \<noteq> 0"
    by (simp add: O_APPEND_def)
  have b: "(2 :: int) AND O_RDWR \<noteq> 0"
    by (simp add: O_RDWR_def)
  show ?thesis
    using a b open_for_writing_denied [of 1025 doc_env doc_files 2]
      open_for_writing_denied [of 2 doc_env doc_files 2]
    by simp
qed

section \<open>The stream: position and size of reads\<close>

lemma init_starts_at_zero:
  "HTTPRangeFile_init E u = (Inr s, tr) \<Longrightarrow>
     pos s = 0 \<and> url s = u \<and> http E (HEAD u) = Inr (head s) \<and> is_seekable_cache s = None"
  by (auto simp: HTTPRangeFile_init_def split: sum.splits)

lemma after_keeps_pos_nonneg:
  "0 \<le> pos s \<Longrightarrow> 0 \<le> pos (after s c)"
proof (cases c)
  case (Pair E k)
  assume p: "0 \<le> pos s"
  show ?thesis
  proof (cases k)
    case (Read n)
    with Pair p show ?thesis
      by (auto simp: HTTPRangeFile_read_def HTTPRangeFile_readinto_def Let_def
          split: sum.splits)
  next
    case (Readinto b)
    with Pair p show ?thesis
      by (auto simp: HTTPRangeFile_readinto_def Let_def split: sum.splits)
  next
    case (Seek offset whence)
    with Pair p show ?thesis
      by (auto simp: HTTPRangeFile_seek_def split: sum.splits)
  next
    case Tell
    with Pair p show ?thesis by simp
  next
    case Seekable
    with Pair p show ?thesis
      by (auto simp: HTTPRangeFile_seekable_def HTTPRangeFile_is_seekable_def Let_def
          split: option.splits)
  qed
qed

lemma run_keeps_pos_nonneg:
  "0 \<le> pos s \<Longrightarrow> 0 \<le> pos (run s cs)"
  by (induction cs arbitrary: s) (auto intro: after_keeps_pos_nonneg)

lemma read_within_range:
  "HTTPRangeFile_read E s n = (Inr data, s', tr) \<Longrightarrow> list_all (reply_fits E) tr \<Longrightarrow>
     pos s' = pos s + int (length data)
   \<and> int (length data) \<le> max 0 (fsize s - pos s)
   \<and> (0 \<le> n \<longrightarrow> int (length data) \<le> n)"
  by (auto simp: HTTPRangeFile_read_def HTTPRangeFile_readinto_def Let_def
      split: if_splits sum.splits)

lemma readinto_within_range:
  "HTTPRangeFile_readinto E s b = (Inr (k, b'), s', tr) \<Longrightarrow> list_all (reply_fits E) tr \<Longrightarrow>
     pos s' = pos s + int k \<and> int k \<le> max 0 (fsize s - pos s) \<and> k \<le> length b
   \<and> length b' = length b"
  by (auto simp: HTTPRangeFile_readinto_def Let_def split: if_splits sum.splits)

lemma bridge_read_within_range:
  "tempofs_read E files h off sz = (Inr data, tr) \<Longrightarrow> list_all (reply_fits E) tr \<Longrightarrow>
     int (length data) \<le> max 0 sz"
  by (auto simp: tempofs_read_def webfile_read_def Let_def split: sum.splits)

text \<open>
  C9, as the code has it. Over every sequence of calls on a stream, from its
  construction on, the position is never negative. A \<open>read\<close> or \<open>readinto\<close> whose
  ranged reply carries no more bytes than the range asked for returns at most the bytes
  requested and at most the bytes between the position and the size; under the same
  condition the bridge's \<open>read\<close> returns at most \<open>size\<close> bytes. The code itself puts
  no bound on the length of a reply.
\<close>

theorem position_and_read_bounds:
  assumes "HTTPRangeFile_init E0 u = (Inr s0, tr0)" and "s = run s0 calls"
  shows "0 \<le> pos s
    \<and> (\<forall>E n data s' tr.
          HTTPRangeFile_read E s n = (Inr data, s', tr) \<and> list_all (reply_fits E) tr \<longrightarrow>
            int (length data) \<le> max 0 (fsize s - pos s)
          \<and> (0 \<le> n \<longrightarrow> int (length data) \<le> n))
    \<and> (\<forall>E b k b' s' tr.
          HTTPRangeFile_readinto E s b = (Inr (k, b'), s', tr)
            \<and> list_all (reply_fits E) tr \<longrightarrow>
            int k \<le> max 0 (fsize s - pos s) \<and> k \<le> length b)
    \<and> (\<forall>E files h off sz data tr.
          tempofs_read E files h off sz = (Inr data, tr) \<and> list_all (reply_fits E) tr \<longrightarrow>
            int (length data) \<le> max 0 sz)"
proof -
  from assms(1) have "pos s0 = 0"
    by (simp add: init_starts_at_zero)
  then have "0 \<le> pos s"
    using assms(2) by (simp add: run_keeps_pos_nonneg)
  then show ?thesis
    using read_within_range readinto_within_range bridge_read_within_range by blast
qed

lemma init_doc:
  "HTTPRangeFile_init doc_env doc_url = (Inr (doc_stream 0), [Sent (HEAD doc_url)])"
  by (simp add: HTTPRangeFile_init_def doc_env_def doc_stream_def doc_head_def
      raise_for_status_def content_length_def ten_def)

lemma read_doc_6_3:
  "HTTPRangeFile_read doc_env (doc_stream 6) 3
     = (Inr ''678'', doc_stream 9, [Sent (GET doc_url 6 8)])"
  by (simp add: HTTPRangeFile_read_def HTTPRangeFile_readinto_def doc_env_def doc_stream_def
      raise_for_status_def Let_def)

lemma run_doc:
  "run (doc_stream 0) [(doc_env, Read 4), (doc_env, Seek 2 SEEK_CUR)] = doc_stream 6"
  by (simp add: HTTPRangeFile_read_def HTTPRangeFile_readinto_def doc_env_def doc_stream_def
      raise_for_status_def Let_def HTTPRangeFile_seek_def SEEK_CUR_def SEEK_SET_def)

theorem position_and_read_bounds_witness:
  "HTTPRangeFile_init doc_env doc_url = (Inr (doc_stream 0), [Sent (HEAD doc_url)])
 \<and> doc_stream 6 = run (doc_stream 0) [(doc_env, Read 4), (doc_env, Seek 2 SEEK_CUR)]
 \<and> HTTPRangeFile_read doc_env (doc_stream 6) 3
     = (Inr ''678'', doc_stream 9, [Sent (GET doc_url 6 8)])
 \<and> list_all (reply_fits doc_env) [Sent (GET doc_url 6 8)]
 \<and> 0 \<le> pos (doc_stream 6)
 \<and> int (length ''678'') \<le> max 0 (fsize (doc_stream 6) - pos (doc_stream 6))
 \<and> int (length ''678'') \<le> 3"
proof -
  have fits: "list_all (reply_fits doc_env) [Sent (GET doc_url 6 8)]"
    by (simp add: doc_env_def)
  have "int (length ''678'') \<le> max 0 (fsize (doc_stream 6) - pos (doc_stream 6))
      \<and> ((0::int) \<le> 3 \<longrightarrow> int (length ''678'') \<le> 3)"
    using position_and_read_bounds [OF init_doc run_doc [symmetric]] read_doc_6_3 fits
    by blast
  moreover have "0 \<le> pos (doc_stream 6)"
    using position_and_read_bounds [OF init_doc run_doc [symmetric]] by blast
  ultimately show ?thesis
    using init_doc run_doc read_doc_6_3 fits by simp
qed

text \<open>
  C9 as stated fails where the server does not honour the range. The server without
  range support answers the request for bytes 0 to 3 with all ten bytes, and \<open>read(4)\<close>
  returns the ten.
\<close>

theorem read_exceeds_request:
  "HTTPRangeFile_init plain_env doc_url = (Inr (plain_stream 0), [Sent (HEAD doc_url)])
 \<and> HTTPRangeFile_read plain_env (plain_stream 0) 4
     = (Inr ''0123456789'', plain_stream 10, [Sent (GET doc_url 0 3)])
 \<and> 4 < int (length ''0123456789'')"
  by (simp add: HTTPRangeFile_init_def HTTPRangeFile_read_def HTTPRangeFile_readinto_def
      plain_env_def plain_stream_def plain_head_def raise_for_status_def content_length_def
      ten_def Let_def)

section \<open>The bridge: directory listing\<close>

lemma add_files_names:
  "map name (add_files files config) = map name files @ map fst config"
  by (induction files config rule: add_files.induct) auto

lemma init_names: "map name (tempofs_init config) = map fst config"
  by (simp add: tempofs_init_def add_files_names)

lemma init_length: "length (tempofs_init config) = length config"
  using arg_cong [OF init_names, of length] by simp

lemma getattr_trace:
  "webfile_getattr E f = (r, tr) \<Longrightarrow> tr = [Sent (HEAD (wurl f))]"
  by (auto simp: webfile_getattr_def split: sum.splits)

lemma encode_ascii_same: "encode_ascii n = Inr nm \<Longrightarrow> nm = n"
  by (auto simp: encode_ascii_def split: if_splits)

lemma readdir_in_range:
  "0 \<le> i \<Longrightarrow> i < int (length files) \<Longrightarrow> encode_ascii (name (files ! nat i)) = Inr nm \<Longrightarrow>
   webfile_getattr E (files ! nat i) = (Inr a, tr) \<Longrightarrow>
     tempofs_readdir E files ROOT_INODE i = (Inr (), tr @ [Readdir_reply nm a (i + 1)])"
  by (simp add: tempofs_readdir_def files_at_def)

lemma readdir_past_end:
  "int (length files) \<le> i \<Longrightarrow>
     tempofs_readdir E files ROOT_INODE i = (Inl (FUSEError ENOENT), [])"
  by (simp add: tempofs_readdir_def files_at_def)

lemma listdir_from:
  assumes ok: "\<forall>f \<in> set files. encode_ascii (name f) = Inr (name f)
                 \<and> \<not> isl (fst (webfile_getattr E f))"
  shows "k \<le> length files \<Longrightarrow>
     listdir E files (int k) = (map name (drop k files), int (length files), Some (FUSEError ENOENT))"
proof (induction "length files - k" arbitrary: k)
  case 0
  then have "k = length files" by simp
  then show ?case
    by (subst listdir.simps) (simp add: readdir_past_end)
next
  case (Suc d)
  then have k: "k < length files" by simp
  let ?f = "files ! k"
  from k have mem: "?f \<in> set files" by simp
  with ok have asc: "encode_ascii (name ?f) = Inr (name ?f)"
    and ga: "\<not> isl (fst (webfile_getattr E ?f))" by auto
  from ga obtain a tr where g: "webfile_getattr E ?f = (Inr a, tr)"
    by (cases "webfile_getattr E ?f"; cases "fst (webfile_getattr E ?f)") auto
  have tr: "tr = [Sent (HEAD (wurl ?f))]"
    by (rule getattr_trace [OF g])
  have rd: "tempofs_readdir E files ROOT_INODE (int k)
      = (Inr (), tr @ [Readdir_reply (name ?f) a (int k + 1)])"
    using k asc g by (intro readdir_in_range) simp_all
  have IH: "listdir E files (int (Suc k))
      = (map name (drop (Suc k) files), int (length files), Some (FUSEError ENOENT))"
    using Suc.hyps(1) [of "Suc k"] Suc.hyps(2) k by simp
  have "int k + 1 = int (Suc k)" by simp
  with rd tr IH have "listdir E files (int k)
      = (name ?f # map name (drop (Suc k) files), int (length files), Some (FUSEError ENOENT))"
    by (subst listdir.simps) simp
  with k show ?case
    by (simp add: Cons_nth_drop_Suc [symmetric])
qed

text \<open>
  C5, as the code has it. On the root handle, for \<open>0 \<le> i < count\<close>, when the name of
  entry \<open>i\<close> encodes as ASCII and its attributes are fetched without an exception,
  \<open>readdir\<close> sends the one HEAD request for that entry and emits exactly one entry:
  that name, the attributes just fetched and the resume index \<open>i + 1\<close>. For
  \<open>i \<ge> count\<close> it fails with ENOENT and emits nothing. So, when this holds of every
  entry, listing from 0 yields the configured names once each, in configuration order,
  and ends with ENOENT at index \<open>count\<close>.
\<close>

theorem readdir_one_entry:
  "(0 \<le> i \<and> i < int (length files) \<and> encode_ascii (name (files ! nat i)) = Inr nm
      \<and> webfile_getattr E (files ! nat i) = (Inr a, tr) \<longrightarrow>
       nm = name (files ! nat i) \<and> tr = [Sent (HEAD (wurl (files ! nat i)))]
     \<and> tempofs_readdir E files ROOT_INODE i = (Inr (), tr @ [Readdir_reply nm a (i + 1)])
     \<and> replies (snd (tempofs_readdir E files ROOT_INODE i)) = [(nm, a, i + 1)])
 \<and> (int (length files) \<le> i \<longrightarrow>
       tempofs_readdir E files ROOT_INODE i = (Inl (FUSEError ENOENT), []))
 \<and> ((\<forall>f \<in> set (tempofs_init config).
         encode_ascii (name f) = Inr (name f) \<and> \<not> isl (fst (webfile_getattr E f))) \<longrightarrow>
       listdir E (tempofs_init config) 0
         = (map fst config, int (length config), Some (FUSEError ENOENT)))"
proof (intro conjI impI)
  assume h: "0 \<le> i \<and> i < int (length files) \<and> encode_ascii (name (files ! nat i)) = Inr nm
      \<and> webfile_getattr E (files ! nat i) = (Inr a, tr)"
  then show "nm = name (files ! nat i)"
    by (simp add: encode_ascii_same)
  from h show t: "tr = [Sent (HEAD (wurl (files ! nat i)))]"
    by (auto dest: getattr_trace)
  from h show r: "tempofs_readdir E files ROOT_INODE i
      = (Inr (), tr @ [Readdir_reply nm a (i + 1)])"
    by (simp add: readdir_in_range)
  from r t show "replies (snd (tempofs_readdir E files ROOT_INODE i)) = [(nm, a, i + 1)]"
    by simp
next
  assume "int (length files) \<le> i"
  then show "tempofs_readdir E files ROOT_INODE i = (Inl (FUSEError ENOENT), [])"
    by (rule readdir_past_end)
next
  assume "\<forall>f \<in> set (tempofs_init config).
         encode_ascii (name f) = Inr (name f) \<and> \<not> isl (fst (webfile_getattr E f))"
  then have "listdir E (tempofs_init config) (int 0)
      = (map name (drop 0 (tempofs_init config)), int (length (tempofs_init config)),
         Some (FUSEError ENOENT))"
    by (intro listdir_from) simp_all
  then show "listdir E (tempofs_init config) 0
         = (map fst config, int (length config), Some (FUSEError ENOENT))"
    by (simp add: init_names init_length)
qed

lemma getattr_doc:
  "webfile_getattr doc_env \<lparr>inode = k, name = n, wurl = u\<rparr>
     = (Inr \<lparr>st_ino = k, st_mode = 33060, st_size = 10, st_uid = 0, st_gid = 0,
             st_ctime_ns = 0, st_atime_ns = 0, st_mtime_ns = 0\<rparr>, [Sent (HEAD u)])"
  by (simp add: webfile_getattr_def doc_env_def doc_head_def last_modified_def
      content_length_def ten_def EntryAttributes_new_def file_mode_def S_IFREG_def)

theorem readdir_one_entry_witness:
  "tempofs_readdir doc_env doc_files ROOT_INODE 1
     = (Inr (), [Sent (HEAD ''http://h/b''),
          Readdir_reply ''b''
            \<lparr>st_ino = 3, st_mode = 33060, st_size = 10, st_uid = 0, st_gid = 0,
              st_ctime_ns = 0, st_atime_ns = 0, st_mtime_ns = 0\<rparr> 2])
 \<and> tempofs_readdir doc_env doc_files ROOT_INODE 2 = (Inl (FUSEError ENOENT), [])
 \<and> listdir doc_env doc_files 0 = ([''doc'', ''b''], 2, Some (FUSEError ENOENT))"
proof -
  have all: "\<forall>f \<in> set (tempofs_init [(''doc'', doc_url), (''b'', ''http://h/b'')]).
      encode_ascii (name f) = Inr (name f) \<and> \<not> isl (fst (webfile_getattr doc_env f))"
    by (simp add: doc_files_eq [unfolded doc_files_def] getattr_doc encode_ascii_def)
  have one: "0 \<le> (1::int) \<and> 1 < int (length doc_files)
      \<and> encode_ascii (name (doc_files ! nat 1)) = Inr ''b''
      \<and> webfile_getattr doc_env (doc_files ! nat 1)
          = (Inr \<lparr>st_ino = 3, st_mode = 33060, st_size = 10, st_uid = 0, st_gid = 0,
              st_ctime_ns = 0, st_atime_ns = 0, st_mtime_ns = 0\<rparr>, [Sent (HEAD ''http://h/b'')])"
    by (simp add: doc_files_eq getattr_doc encode_ascii_def)
  have two: "int (length doc_files) \<le> 2"
    by (simp add: doc_files_eq)
  show ?thesis
    using all one two
      readdir_one_entry [where i = 1 and files = doc_files and nm = "''b''" and E = doc_env
        and config = "[(''doc'', doc_url), (''b'', ''http://h/b'')]"]
      readdir_one_entry [where i = 2 and files = doc_files and E = doc_env]
    by (simp add: doc_files_def)
qed

text \<open>
  C5 as stated fails for a registry with a name outside ASCII: \<open>readdir\<close> at index 0
  raises UnicodeEncodeError from \<^verbatim>\<open>bytes(file.name, encoding="ascii")\<close> and emits
  nothing.
\<close>

theorem readdir_non_ascii_name:
  "tempofs_init [([CHR 0xE9], doc_url)] = [\<lparr>inode = 2, name = [CHR 0xE9], wurl = doc_url\<rparr>]
 \<and> tempofs_readdir doc_env (tempofs_init [([CHR 0xE9], doc_url)]) ROOT_INODE 0
     = (Inl UnicodeEncodeError, [])
 \<and> replies (snd (tempofs_readdir doc_env (tempofs_init [([CHR 0xE9], doc_url)]) ROOT_INODE 0)) = []"
  by (simp add: tempofs_init_def tempofs_readdir_def files_at_def encode_ascii_def ROOT_INODE_def)


section \<open>Seekability\<close>








end
